theory Spec2Isabelle
  imports Main "HOL-Library.Sublist"
begin

section \<open>The redirect table of \<open>next.config.js\<close>\<close>

text \<open>
  A redirect entry is an object literal with the three properties \<open>source\<close>,
  \<open>destination\<close> and \<open>permanent\<close>.
\<close>

record redirect =
  source :: string
  destination :: string
  permanent :: bool

text \<open>
  \<open>async redirects()\<close> takes no argument and reads no state: the promise it returns
  always resolves to the same array literal, which is the value modelled here, entry by
  entry in the order of the file.
\<close>

definition redirects :: "redirect list" where
  "redirects =
    [ \<lparr> source = ''/blog/auditing-dotnet-entity-framework-core'',
        destination = ''https://minimalizt.dev/blog/auditing-dotnet-entity-framework-core/'',
        permanent = True \<rparr>,
      \<lparr> source = ''/blog/difference-between-datetime-now-utcnow'',
        destination = ''https://minimalizt.dev/blog/difference-between-datetime-now-utcnow/'',
        permanent = True \<rparr>,
      \<lparr> source = ''/blog/entity-framework-query-filters-per-request-configuration'',
        destination =
          ''https://minimalizt.dev/blog/entity-framework-query-filters-per-request-configuration/'',
        permanent = True \<rparr>,
      \<lparr> source = ''/blog/exception-filter-attribute-dotnet'',
        destination = ''https://minimalizt.dev/blog/exception-filter-attribute-dotnet/'',
        permanent = True \<rparr>,
      \<lparr> source = ''/blog/linq-extensions-pagination-order-by-property-name'',
        destination =
          ''https://minimalizt.dev/blog/linq-extensions-pagination-order-by-property-name/'',
        permanent = True \<rparr>,
      \<lparr> source = ''/blog/openid-connect-dotnet-5'',
        destination = ''https://minimalizt.dev/blog/openid-connect-dotnet-5/'',
        permanent = True \<rparr>,
      \<lparr> source = ''/blog/set-up-automapper-dotnet-core'',
        destination = ''https://minimalizt.dev/blog/set-up-automapper-dotnet-core/'',
        permanent = True \<rparr>,
      \<lparr> source = ''/blog/swagger-api-versioning-dotnet-core'',
        destination = ''https://minimalizt.dev/blog/swagger-api-versioning-dotnet-core/'',
        permanent = True \<rparr> ]"


section \<open>Regular expression literals\<close>

text \<open>
  The two \<open>test\<close> conditions are regular expression literals. Their syntax trees use
  only pattern characters (an escaped \<open>\.\<close> is the character itself), sequencing,
  alternation \<open>|\<close>, the greedy quantifier \<open>?\<close> and the assertion \<open>$\<close>.
\<close>

datatype regex =
    Chr char
  | Seq regex regex
  | Alt regex regex
  | Opt regex
  | EndAnchor

record js_regexp =
  pattern :: regex
  ignoreCase :: bool

text \<open>
  Without the \<open>u\<close> flag, a case-insensitive match compares the upper-case images of
  single code units, and a code unit outside ASCII is never identified with an ASCII
  one. File names are modelled as \<open>string\<close>; every character of the two patterns is
  ASCII, so only the ASCII letters are folded and every other character stands for
  itself.
\<close>

definition canonicalize :: "char \<Rightarrow> char" where
  "canonicalize ch =
    (let n = (of_char ch :: nat)
     in if 97 \<le> n \<and> n \<le> 122 then char_of (n - 32) else ch)"

definition char_match :: "bool \<Rightarrow> char \<Rightarrow> char \<Rightarrow> bool" where
  "char_match ic c d = (if ic then canonicalize c = canonicalize d else c = d)"

text \<open>
  The backtracking matcher: \<open>rmatch ic r s\<close> lists, in the order in which the engine
  tries them, the remainders of \<open>s\<close> after each way of matching \<open>r\<close> at its start.
  Neither literal has the \<open>m\<close> flag, so \<open>$\<close> holds at the end of the input only.
\<close>

fun rmatch :: "bool \<Rightarrow> regex \<Rightarrow> string \<Rightarrow> string list" where
  "rmatch ic (Chr c) s =
    (case s of [] \<Rightarrow> [] | d # t \<Rightarrow> if char_match ic c d then [t] else [])"
| "rmatch ic (Seq p q) s = concat (map (rmatch ic q) (rmatch ic p s))"
| "rmatch ic (Alt p q) s = rmatch ic p s @ rmatch ic q s"
| "rmatch ic (Opt p) s = rmatch ic p s @ [s]"
| "rmatch ic EndAnchor s = (if s = [] then [s] else [])"

text \<open>
  \<open>RegExp.prototype.exec\<close> on a literal without the \<open>g\<close> and \<open>y\<close> flags starts at
  index 0 and moves the start forward until a match is found or the index passes the end
  of the string. \<open>test\<close> reports whether \<open>exec\<close> found a match.
\<close>

definition regexp_exec :: "js_regexp \<Rightarrow> string \<Rightarrow> nat option" where
  "regexp_exec re s =
    find (\<lambda>i. rmatch (ignoreCase re) (pattern re) (drop i s) \<noteq> []) [0..<Suc (length s)]"

definition regexp_test :: "js_regexp \<Rightarrow> string \<Rightarrow> bool" where
  "regexp_test re s = (regexp_exec re s \<noteq> None)"


section \<open>The \<open>webpack\<close> hook\<close>

text \<open>
  An entry of a rule's \<open>use\<close> array is either a loader name or an object with a
  \<open>loader\<close> and its \<open>options\<close>, listed in the order of the literal.
\<close>

datatype use_item =
    LoaderName string
  | Loader string "(string \<times> string) list"

text \<open>
  The rules array belongs to the framework: what it already holds has a shape this file
  does not fix (\<open>Framework\<close>). The hook pushes object literals with a \<open>test\<close> and a
  \<open>use\<close> property (\<open>Rule\<close>).
\<close>

datatype 'o module_rule =
    Rule (test: js_regexp) (use: "use_item list")
  | Framework 'o

datatype 'o alias_target =
    Module string
  | FrameworkTarget 'o

text \<open>
  \<open>config\<close> is the framework's object. The hook reads \<open>config.module.rules\<close> and
  \<open>config.resolve.alias\<close>; every other property of the three objects is carried in the
  extension part of its record. The framework always passes a configuration that has a
  rules array and an alias object; one without them, on which the hook would throw, is
  not a value of these types. (\<open>alias\<close> is a command of Isabelle, hence the field
  name \<open>alias'\<close>.)
\<close>

record 'o module_obj =
  rules :: "'o module_rule list"

record 'o resolve_obj =
  alias' :: "string \<rightharpoonup> 'o alias_target"

record ('o, 'm, 'r) webpack_config =
  module :: "('o, 'm) module_obj_scheme"
  resolve :: "('o, 'r) resolve_obj_scheme"

record build_options =
  dev :: bool
  isServer :: bool

definition asset_test :: js_regexp where
  "asset_test =
    \<lparr> pattern =
        Seq
          (Seq (Chr CHR ''.'')
            (Alt (Seq (Chr CHR ''p'') (Seq (Chr CHR ''n'') (Chr CHR ''g'')))
              (Alt (Seq (Chr CHR ''j'')
                     (Seq (Chr CHR ''p'') (Seq (Opt (Chr CHR ''e'')) (Chr CHR ''g''))))
                (Alt (Seq (Chr CHR ''g'') (Seq (Chr CHR ''i'') (Chr CHR ''f'')))
                  (Seq (Chr CHR ''m'') (Seq (Chr CHR ''p'') (Chr CHR ''4'')))))))
          EndAnchor,
      ignoreCase = True \<rparr>"

definition svg_test :: js_regexp where
  "svg_test =
    \<lparr> pattern =
        Seq
          (Seq (Chr CHR ''.'') (Seq (Chr CHR ''s'') (Seq (Chr CHR ''v'') (Chr CHR ''g''))))
          EndAnchor,
      ignoreCase = False \<rparr>"

definition asset_rule :: "'o module_rule" where
  "asset_rule =
    Rule asset_test
      [Loader ''file-loader''
        [(''publicPath'', ''/_next''),
         (''name'', ''static/media/[name].[hash].[ext]'')]]"

definition svg_rule :: "'o module_rule" where
  "svg_rule = Rule svg_test [LoaderName ''@svgr/webpack'']"

definition preact_aliases :: "(string \<times> 'o alias_target) list" where
  "preact_aliases =
    [(''react/jsx-runtime.js'', Module ''preact/compat/jsx-runtime''),
     (''react'', Module ''preact/compat''),
     (''react-dom/test-utils'', Module ''preact/test-utils''),
     (''react-dom'', Module ''preact/compat'')]"

text \<open>
  \<open>Array.prototype.push\<close> appends in place, and \<open>Object.assign(target, src)\<close> writes
  each property of \<open>src\<close> onto \<open>target\<close>, in the order of \<open>src\<close>. The mutations of the
  argument are the updates of the record that the function returns.
\<close>

definition push :: "'a list \<Rightarrow> 'a \<Rightarrow> 'a list" where
  "push xs x = xs @ [x]"

definition object_assign :: "('k \<rightharpoonup> 'v) \<Rightarrow> ('k \<times> 'v) list \<Rightarrow> ('k \<rightharpoonup> 'v)" where
  "object_assign target src = fold (\<lambda>(k, v) m. m(k \<mapsto> v)) src target"

definition webpack ::
  "('o, 'm, 'r, 'z) webpack_config_scheme \<Rightarrow> build_options \<Rightarrow>
   ('o, 'm, 'r, 'z) webpack_config_scheme" where
  "webpack config opts =
    (let config1 = config\<lparr>module := (module config)\<lparr>rules := push (rules (module config)) asset_rule\<rparr>\<rparr>;
         config2 = config1\<lparr>module := (module config1)\<lparr>rules := push (rules (module config1)) svg_rule\<rparr>\<rparr>
     in if \<not> dev opts \<and> \<not> isServer opts
        then config2\<lparr>resolve := (resolve config2)\<lparr>alias' := object_assign (alias' (resolve config2)) preact_aliases\<rparr>\<rparr>
        else config2)"

text \<open>
  How the bundler uses a rule that this file adds: the rule applies to a resource when
  its \<open>test\<close> matches the resource's path. Whether a rule of the framework applies is
  not decided by this file.
\<close>

fun rule_applies :: "'o module_rule \<Rightarrow> string \<Rightarrow> bool option" where
  "rule_applies (Rule t u) path = Some (regexp_test t path)"
| "rule_applies (Framework x) path = None"


section \<open>The exported configuration\<close>

type_synonym env = "string \<rightharpoonup> string"

record analyzer_options =
  enabled :: bool

record eslint_options =
  dirs :: "string list"

record 'c next_config =
  reactStrictMode :: bool
  pageExtensions :: "string list"
  eslint :: eslint_options
  redirects_fn :: "redirect list"
  webpack_fn :: "'c \<Rightarrow> build_options \<Rightarrow> 'c"

text \<open>
  \<open>require('@next/bundle-analyzer')\<close> is a function of another package, taken here as
  the parameter \<open>bundle_analyzer\<close>. It is called once with the options object, and its
  result is called with the configuration literal.
\<close>

definition withBundleAnalyzer :: "(analyzer_options \<Rightarrow> 'w) \<Rightarrow> env \<Rightarrow> 'w" where
  "withBundleAnalyzer bundle_analyzer process_env =
    bundle_analyzer \<lparr> enabled = (process_env ''ANALYZE'' = Some ''true'') \<rparr>"

definition module_exports ::
  "(analyzer_options \<Rightarrow> ('o, 'm, 'r, 'z) webpack_config_scheme next_config \<Rightarrow> 'e) \<Rightarrow> env \<Rightarrow> 'e" where
  "module_exports bundle_analyzer process_env =
    withBundleAnalyzer bundle_analyzer process_env
      \<lparr> reactStrictMode = True,
        pageExtensions = [''js'', ''jsx'', ''md'', ''mdx''],
        eslint = \<lparr> dirs = [''pages'', ''components'', ''lib'', ''layouts'', ''scripts''] \<rparr>,
        redirects_fn = redirects,
        webpack_fn = webpack \<rparr>"


section \<open>The blog posts\<close>

text \<open>
  A post is a text file, modelled as the list of its lines. The head of each post file
  (four under \<open>data/blog\<close>, one more whose name is not known) is written out below, up to the first line of text of its body; the
  lines after it are not part of the model. The character \<open>'\<close> at the end of a line is
  written \<open>CHR 0x27\<close>.
\<close>

definition swagger_api_versioning_dotnet_core :: "string list" where
  "swagger_api_versioning_dotnet_core =
    [''---'',
     ''title: 'Set up Swagger and API versioning in .NET 5 web API'' @ [CHR 0x27],
     ''date: '2021-05-06'' @ [CHR 0x27],
     ''tags: ['asp-net-core', 'dotnet', 'swagger']'',
     ''draft: false'',
     ''summary: 'API versioning and Swagger goes hand in hand when developing APIs. Learn how to easily set it up.'' @ [CHR 0x27],
     ''---'',
     '''',
     ''If you are developing any API, having good documentation and proper versioning is absolutely crucial. In this blog post I will show how to set up'']"

definition linq_extensions_pagination_order_by_property_name :: "string list" where
  "linq_extensions_pagination_order_by_property_name =
    [''---'',
     ''title: 'LINQ extensions for pagination and ordering by property name in Entity Framework'' @ [CHR 0x27],
     ''date: '2021-05-17'' @ [CHR 0x27],
     ''tags: ['asp-net-core', 'dotnet', 'linq', 'entity-framework']'',
     ''draft: false'',
     ''summary: 'Learn how to create LINQ extensions that will simplify pagination and ordering by property names in Entity Framework.'' @ [CHR 0x27],
     ''---'',
     '''',
     ''## Why another extension?'']"

definition entity_framework_query_filters_per_request_configuration :: "string list" where
  "entity_framework_query_filters_per_request_configuration =
    [''---'',
     ''title: 'Entity Framework global query filters - per-request configuration'' @ [CHR 0x27],
     ''date: '2021-05-10'' @ [CHR 0x27],
     ''tags: ['asp-net-core', 'dotnet', 'entity-framework']'',
     ''draft: false'',
     ''summary: 'Learn what Entity Framework global query filters are and how to configure it per request.'' @ [CHR 0x27],
     ''---'',
     '''',
     ''## What are Entity Framework global query filters?'']"

definition set_up_automapper_dotnet_core :: "string list" where
  "set_up_automapper_dotnet_core =
    [''---'',
     ''title: 'Simple AutoMapper setup in .NET 5'' @ [CHR 0x27],
     ''date: '2021-05-24'' @ [CHR 0x27],
     ''tags: ['asp-net-core', 'dotnet', 'automapper']'',
     ''draft: false'',
     ''summary: 'Learn one of the simplest ways to configure AutoMapper in .NET 5'' @ [CHR 0x27],
     ''---'',
     '''',
     ''## Why use AutoMapper?'']"

definition part_000 :: "string list" where
  "part_000 =
    [''---'',
     ''title: 'Set up token authentication with OpenIddict in .NET 5'' @ [CHR 0x27],
     ''date: '2021-06-05'' @ [CHR 0x27],
     ''tags: ['asp-net-core', 'dotnet', 'oidc', 'authentication']'',
     ''draft: false'',
     ''summary: 'Learn how to set up an OpenID Connect server using OpenIddict in .NET 5.'' @ [CHR 0x27],
     ''---'',
     '''',
     ''## What is OpenIddict?'']"

definition blog_posts :: "string list list" where
  "blog_posts =
    [swagger_api_versioning_dotnet_core,
     linq_extensions_pagination_order_by_property_name,
     entity_framework_query_filters_per_request_configuration,
     set_up_automapper_dotnet_core,
     part_000]"


section \<open>The language of a pattern\<close>

text \<open>
  For the proofs about the matcher: the strings that a pattern without \<open>$\<close> consumes,
  with their characters folded when the match ignores case.
\<close>

definition fold_case :: "bool \<Rightarrow> char \<Rightarrow> char" where
  "fold_case ic c = (if ic then canonicalize c else c)"

fun anchor_free :: "regex \<Rightarrow> bool" where
  "anchor_free (Chr c) = True"
| "anchor_free (Seq p q) = (anchor_free p \<and> anchor_free q)"
| "anchor_free (Alt p q) = (anchor_free p \<and> anchor_free q)"
| "anchor_free (Opt p) = anchor_free p"
| "anchor_free EndAnchor = False"

fun words :: "bool \<Rightarrow> regex \<Rightarrow> string set" where
  "words ic (Chr c) = {[fold_case ic c]}"
| "words ic (Seq p q) = (\<Union>u \<in> words ic p. (\<lambda>v. u @ v) ` words ic q)"
| "words ic (Alt p q) = words ic p \<union> words ic q"
| "words ic (Opt p) = insert [] (words ic p)"
| "words ic EndAnchor = {}"


section \<open>Properties of the redirect table\<close>

text \<open>
  C1. The list returned by \<open>redirects()\<close> has exactly eight entries, one for each of
  eight different source paths, and pairs each source path with the destination written
  out below, an absolute URL on \<open>https://minimalizt.dev\<close>. Every entry is permanent, and
  the first entry of the table with the entry's source path is the entry itself. So a
  lookup of a path in the table finds an entry for the eight source paths only, and what
  it finds is permanent and has exactly the destination listed for the path.
\<close>

theorem redirects_permanent_to_destination:
  "length redirects = 8 \<and>
   distinct (map source redirects) \<and>
   map (\<lambda>r. (source r, destination r)) redirects =
     [(''/blog/auditing-dotnet-entity-framework-core'',
       ''https://minimalizt.dev/blog/auditing-dotnet-entity-framework-core/''),
      (''/blog/difference-between-datetime-now-utcnow'',
       ''https://minimalizt.dev/blog/difference-between-datetime-now-utcnow/''),
      (''/blog/entity-framework-query-filters-per-request-configuration'',
       ''https://minimalizt.dev/blog/entity-framework-query-filters-per-request-configuration/''),
      (''/blog/exception-filter-attribute-dotnet'',
       ''https://minimalizt.dev/blog/exception-filter-attribute-dotnet/''),
      (''/blog/linq-extensions-pagination-order-by-property-name'',
       ''https://minimalizt.dev/blog/linq-extensions-pagination-order-by-property-name/''),
      (''/blog/openid-connect-dotnet-5'',
       ''https://minimalizt.dev/blog/openid-connect-dotnet-5/''),
      (''/blog/set-up-automapper-dotnet-core'',
       ''https://minimalizt.dev/blog/set-up-automapper-dotnet-core/''),
      (''/blog/swagger-api-versioning-dotnet-core'',
       ''https://minimalizt.dev/blog/swagger-api-versioning-dotnet-core/'')] \<and>
   (\<forall>r \<in> set redirects.
      permanent r \<and> prefix ''https://minimalizt.dev/'' (destination r) \<and>
      find (\<lambda>e. source e = source r) redirects = Some r) \<and>
   (\<forall>path r. find (\<lambda>e. source e = path) redirects = Some r \<longrightarrow>
      path \<in> set (map source redirects) \<and> permanent r \<and>
      destination r = ''https://minimalizt.dev'' @ path @ ''/'')"
proof -
  have table: "length redirects = 8 \<and>
   distinct (map source redirects) \<and>
   map (\<lambda>r. (source r, destination r)) redirects =
     [(''/blog/auditing-dotnet-entity-framework-core'',
       ''https://minimalizt.dev/blog/auditing-dotnet-entity-framework-core/''),
      (''/blog/difference-between-datetime-now-utcnow'',
       ''https://minimalizt.dev/blog/difference-between-datetime-now-utcnow/''),
      (''/blog/entity-framework-query-filters-per-request-configuration'',
       ''https://minimalizt.dev/blog/entity-framework-query-filters-per-request-configuration/''),
      (''/blog/exception-filter-attribute-dotnet'',
       ''https://minimalizt.dev/blog/exception-filter-attribute-dotnet/''),
      (''/blog/linq-extensions-pagination-order-by-property-name'',
       ''https://minimalizt.dev/blog/linq-extensions-pagination-order-by-property-name/''),
      (''/blog/openid-connect-dotnet-5'',
       ''https://minimalizt.dev/blog/openid-connect-dotnet-5/''),
      (''/blog/set-up-automapper-dotnet-core'',
       ''https://minimalizt.dev/blog/set-up-automapper-dotnet-core/''),
      (''/blog/swagger-api-versioning-dotnet-core'',
       ''https://minimalizt.dev/blog/swagger-api-versioning-dotnet-core/'')]"
    by (simp add: redirects_def)
  have entries: "\<forall>r \<in> set redirects.
      permanent r \<and> prefix ''https://minimalizt.dev/'' (destination r) \<and>
      find (\<lambda>e. source e = source r) redirects = Some r"
    by (simp add: redirects_def)
  have shape: "permanent r \<and> destination r = ''https://minimalizt.dev'' @ source r @ ''/''"
    if "r \<in> set redirects" for r
    using that by (auto simp: redirects_def)
  have lookup: "\<forall>path r. find (\<lambda>e. source e = path) redirects = Some r \<longrightarrow>
      path \<in> set (map source redirects) \<and> permanent r \<and>
      destination r = ''https://minimalizt.dev'' @ path @ ''/''"
  proof (intro allI impI)
    fix path r
    assume "find (\<lambda>e. source e = path) redirects = Some r"
    then have found: "r \<in> set redirects" "source r = path"
      by (auto simp: find_Some_iff)
    then have "path \<in> set (map source redirects)"
      by auto
    with found shape [of r]
    show "path \<in> set (map source redirects) \<and> permanent r \<and>
      destination r = ''https://minimalizt.dev'' @ path @ ''/''"
      by simp
  qed
  from table entries lookup show ?thesis
    by (intro conjI) (erule conjunct1 conjunct2 | assumption | elim conjE)+
qed

theorem redirects_permanent_to_destination_witness:
  "redirects ! 5 \<in> set redirects \<and> permanent (redirects ! 5) \<and>
   destination (redirects ! 5) = ''https://minimalizt.dev/blog/openid-connect-dotnet-5/'' \<and>
   find (\<lambda>e. source e = ''/blog/openid-connect-dotnet-5'') redirects = Some (redirects ! 5) \<and>
   find (\<lambda>e. source e = ''/blog/no-such-post'') redirects = None"
proof -
  have mem: "redirects ! 5 \<in> set redirects"
    by (simp add: redirects_def)
  have src: "source (redirects ! 5) = ''/blog/openid-connect-dotnet-5''"
    by (simp add: redirects_def)
  note rest = redirects_permanent_to_destination [THEN conjunct2, THEN conjunct2, THEN conjunct2]
  note entries = rest [THEN conjunct1] and lookup = rest [THEN conjunct2]
  from entries mem src
  have found: "find (\<lambda>e. source e = ''/blog/openid-connect-dotnet-5'') redirects = Some (redirects ! 5)"
    by fastforce
  with lookup
  have "permanent (redirects ! 5) \<and>
    destination (redirects ! 5) = ''https://minimalizt.dev'' @ ''/blog/openid-connect-dotnet-5'' @ ''/''"
    by blast
  moreover have "find (\<lambda>e. source e = ''/blog/no-such-post'') redirects = None"
  proof (cases "find (\<lambda>e. source e = ''/blog/no-such-post'') redirects")
    case None
    then show ?thesis .
  next
    case (Some r)
    with lookup have "''/blog/no-such-post'' \<in> set (map source redirects)"
      by blast
    then show ?thesis
      by (simp add: redirects_def)
  qed
  ultimately show ?thesis
    using mem found by simp
qed

text \<open>
  C6. The source paths of the table are pairwise distinct, and each is a literal path:
  it starts with \<open>/\<close> and is made of lower-case letters, digits, \<open>-\<close> and \<open>/\<close> only, so
  it has none of the characters \<open>: * ? + ( ) { }\<close> with which a source would
  declare a parameter, a wildcard or a pattern.
\<close>

theorem redirect_sources_literal_distinct:
  "distinct (map source redirects) \<and>
   (\<forall>r \<in> set redirects.
      hd (source r) = CHR ''/'' \<and>
      set (source r) \<subseteq> set ''abcdefghijklmnopqrstuvwxyz0123456789-/'' \<and>
      set (source r) \<inter> set '':*?+(){}'' = {})"
  by (simp add: redirects_def)

theorem redirect_sources_literal_distinct_witness:
  "hd redirects \<in> set redirects \<and>
   source (hd redirects) = ''/blog/auditing-dotnet-entity-framework-core'' \<and>
   set ''/blog/auditing-dotnet-entity-framework-core''
     \<subseteq> set ''abcdefghijklmnopqrstuvwxyz0123456789-/''"
proof -
  have mem: "hd redirects \<in> set redirects"
    by (simp add: redirects_def)
  have src: "source (hd redirects) = ''/blog/auditing-dotnet-entity-framework-core''"
    by (simp add: redirects_def)
  from mem redirect_sources_literal_distinct
  have "set (source (hd redirects)) \<subseteq> set ''abcdefghijklmnopqrstuvwxyz0123456789-/''"
    by blast
  with mem src show ?thesis
    by simp
qed

text \<open>
  C8. The destination of every entry is its source path appended to
  \<open>https://minimalizt.dev\<close>, followed by a slash.
\<close>

theorem redirect_destination_is_domain_source_slash:
  "\<forall>r \<in> set redirects. destination r = ''https://minimalizt.dev'' @ source r @ ''/''"
  by (simp add: redirects_def)

theorem redirect_destination_is_domain_source_slash_witness:
  "last redirects \<in> set redirects \<and>
   source (last redirects) = ''/blog/swagger-api-versioning-dotnet-core'' \<and>
   destination (last redirects) =
     ''https://minimalizt.dev'' @ ''/blog/swagger-api-versioning-dotnet-core'' @ ''/''"
proof -
  have mem: "last redirects \<in> set redirects"
    by (simp add: redirects_def)
  have src: "source (last redirects) = ''/blog/swagger-api-versioning-dotnet-core''"
    by (simp add: redirects_def)
  from mem redirect_destination_is_domain_source_slash
  have "destination (last redirects) = ''https://minimalizt.dev'' @ source (last redirects) @ ''/''"
    by blast
  with mem src show ?thesis
    by simp
qed


section \<open>The matcher and the language of a pattern\<close>

lemma canonicalize_pattern_chars:
  "canonicalize CHR ''.'' = CHR ''.''"
  "canonicalize CHR ''p'' = CHR ''P''"
  "canonicalize CHR ''n'' = CHR ''N''"
  "canonicalize CHR ''g'' = CHR ''G''"
  "canonicalize CHR ''j'' = CHR ''J''"
  "canonicalize CHR ''e'' = CHR ''E''"
  "canonicalize CHR ''i'' = CHR ''I''"
  "canonicalize CHR ''f'' = CHR ''F''"
  "canonicalize CHR ''m'' = CHR ''M''"
  "canonicalize CHR ''4'' = CHR ''4''"
  "canonicalize CHR ''s'' = CHR ''S''"
  "canonicalize CHR ''v'' = CHR ''V''"
  by code_simp+

lemma canonicalize_upper_chars:
  "canonicalize CHR ''P'' = CHR ''P''"
  "canonicalize CHR ''N'' = CHR ''N''"
  "canonicalize CHR ''G'' = CHR ''G''"
  "canonicalize CHR ''J'' = CHR ''J''"
  "canonicalize CHR ''S'' = CHR ''S''"
  "canonicalize CHR ''V'' = CHR ''V''"
  by code_simp+

lemma fold_case_True: "fold_case True = canonicalize"
  by (rule ext) (simp add: fold_case_def)

lemma fold_case_False: "fold_case False = (\<lambda>c. c)"
  by (rule ext) (simp add: fold_case_def)

lemma char_match_fold: "char_match ic c d \<longleftrightarrow> fold_case ic d = fold_case ic c"
  by (auto simp: char_match_def fold_case_def)

lemma rmatch_words:
  "anchor_free p \<Longrightarrow>
   u \<in> set (rmatch ic p s) \<longleftrightarrow> (\<exists>w. s = w @ u \<and> map (fold_case ic) w \<in> words ic p)"
proof (induction p arbitrary: s u)
  case (Chr c)
  show ?case
  proof (cases s)
    case Nil
    then show ?thesis by simp
  next
    case (Cons d t)
    then show ?thesis
      by (auto simp: char_match_fold Cons_eq_append_conv)
  qed
next
  case (Seq p q)
  then have p: "\<And>s u. u \<in> set (rmatch ic p s) \<longleftrightarrow>
      (\<exists>w. s = w @ u \<and> map (fold_case ic) w \<in> words ic p)"
    and q: "\<And>s u. u \<in> set (rmatch ic q s) \<longleftrightarrow>
      (\<exists>w. s = w @ u \<and> map (fold_case ic) w \<in> words ic q)"
    by simp_all
  show ?case
  proof
    assume "u \<in> set (rmatch ic (Seq p q) s)"
    then obtain v where v: "v \<in> set (rmatch ic p s)" and u: "u \<in> set (rmatch ic q v)"
      by auto
    from v p obtain w1 where w1: "s = w1 @ v" "map (fold_case ic) w1 \<in> words ic p"
      by blast
    from u q obtain w2 where w2: "v = w2 @ u" "map (fold_case ic) w2 \<in> words ic q"
      by blast
    from w1 w2 have "s = (w1 @ w2) @ u \<and> map (fold_case ic) (w1 @ w2) \<in> words ic (Seq p q)"
      by auto
    then show "\<exists>w. s = w @ u \<and> map (fold_case ic) w \<in> words ic (Seq p q)"
      by blast
  next
    assume "\<exists>w. s = w @ u \<and> map (fold_case ic) w \<in> words ic (Seq p q)"
    then obtain w a b where w: "s = w @ u" "map (fold_case ic) w = a @ b"
      "a \<in> words ic p" "b \<in> words ic q"
      by auto
    from w(2) obtain w1 w2 where ws: "w = w1 @ w2" "map (fold_case ic) w1 = a"
      "map (fold_case ic) w2 = b"
      by (auto simp: map_eq_append_conv)
    have "w2 @ u \<in> set (rmatch ic p s)"
      using p w ws by auto
    moreover have "u \<in> set (rmatch ic q (w2 @ u))"
      using q w ws by auto
    ultimately show "u \<in> set (rmatch ic (Seq p q) s)"
      by auto
  qed
next
  case (Alt p q)
  then show ?case by auto
next
  case (Opt p)
  then show ?case by auto
next
  case EndAnchor
  then show ?case by simp
qed

lemma suffix_iff_drop: "suffix t s \<longleftrightarrow> (\<exists>i \<in> set [0..<Suc (length s)]. t = drop i s)"
proof
  assume "suffix t s"
  then obtain zs where "s = zs @ t"
    by (auto simp: suffix_def)
  then have "t = drop (length zs) s" "length zs < Suc (length s)"
    by simp_all
  then show "\<exists>i \<in> set [0..<Suc (length s)]. t = drop i s"
    by auto
next
  assume "\<exists>i \<in> set [0..<Suc (length s)]. t = drop i s"
  then show "suffix t s"
    by (auto simp: suffix_drop)
qed

lemma regexp_test_anchored:
  assumes "anchor_free p"
  shows "regexp_test \<lparr>pattern = Seq p EndAnchor, ignoreCase = ic\<rparr> s \<longleftrightarrow>
    (\<exists>e \<in> words ic p. suffix e (map (fold_case ic) s))"
proof -
  have "regexp_test \<lparr>pattern = Seq p EndAnchor, ignoreCase = ic\<rparr> s \<longleftrightarrow>
      (\<exists>t. suffix t s \<and> rmatch ic (Seq p EndAnchor) t \<noteq> [])"
    unfolding regexp_test_def regexp_exec_def find_None_iff suffix_iff_drop
    by (simp only: js_regexp.simps) blast
  also have "\<dots> \<longleftrightarrow> (\<exists>t. suffix t s \<and> [] \<in> set (rmatch ic p t))"
    by (auto simp: split: if_splits)
  also have "\<dots> \<longleftrightarrow> (\<exists>t. suffix t s \<and> map (fold_case ic) t \<in> words ic p)"
    using assms by (simp add: rmatch_words)
  also have "\<dots> \<longleftrightarrow> (\<exists>e \<in> words ic p. suffix e (map (fold_case ic) s))"
  proof
    assume "\<exists>t. suffix t s \<and> map (fold_case ic) t \<in> words ic p"
    then show "\<exists>e \<in> words ic p. suffix e (map (fold_case ic) s)"
      by (blast intro: map_mono_suffix)
  next
    assume "\<exists>e \<in> words ic p. suffix e (map (fold_case ic) s)"
    then obtain e zs where e: "e \<in> words ic p" "map (fold_case ic) s = zs @ e"
      by (auto simp: suffix_def)
    from e(2) obtain us vs where "s = us @ vs" "map (fold_case ic) vs = e"
      by (auto simp: map_eq_append_conv)
    with e(1) show "\<exists>t. suffix t s \<and> map (fold_case ic) t \<in> words ic p"
      by (auto simp: suffix_def)
  qed
  finally show ?thesis .
qed

lemma asset_test_iff:
  "regexp_test asset_test s \<longleftrightarrow>
    (\<exists>e \<in> {''.PNG'', ''.JPG'', ''.JPEG'', ''.GIF'', ''.MP4''}. suffix e (map canonicalize s))"
  unfolding asset_test_def
  by (subst regexp_test_anchored) (auto simp: fold_case_True canonicalize_pattern_chars)

lemma svg_test_iff: "regexp_test svg_test s \<longleftrightarrow> suffix ''.svg'' s"
  unfolding svg_test_def
  by (subst regexp_test_anchored) (simp_all add: fold_case_False)

lemma asset_test_lower:
  "ext \<in> {''.png'', ''.jpg'', ''.jpeg'', ''.gif'', ''.mp4''} \<Longrightarrow> regexp_test asset_test (base @ ext)"
  by (auto simp: asset_test_iff canonicalize_pattern_chars suffix_def)

lemma asset_test_upper:
  "regexp_test asset_test (base @ ''.PNG'')" "regexp_test asset_test (base @ ''.JPG'')"
  by (simp_all add: asset_test_iff canonicalize_upper_chars canonicalize_pattern_chars suffix_def)

lemma asset_test_any_case:
  "map canonicalize ext \<in> {''.PNG'', ''.JPG'', ''.JPEG'', ''.GIF'', ''.MP4''} \<Longrightarrow>
   regexp_test asset_test (base @ ext)"
  by (auto simp: asset_test_iff suffix_def)

lemma asset_test_not_svg:
  "\<not> regexp_test asset_test (base @ ''.svg'')" "\<not> regexp_test asset_test (base @ ''.SVG'')"
  by (simp_all add: asset_test_iff canonicalize_pattern_chars canonicalize_upper_chars suffix_to_prefix)

lemma svg_test_svg: "regexp_test svg_test (base @ ''.svg'')"
  by (simp add: svg_test_iff suffix_def)

lemma svg_test_not_upper: "\<not> regexp_test svg_test (base @ ''.SVG'')"
  by (simp add: svg_test_iff suffix_to_prefix)

section \<open>What the hook does to the rules and the aliases\<close>

lemma webpack_rules:
  "rules (module (webpack config opts)) = rules (module config) @ [asset_rule, svg_rule]"
  by (simp add: webpack_def push_def Let_def)

lemma object_assign_preact_aliases:
  "object_assign m preact_aliases =
    m(''react/jsx-runtime.js'' \<mapsto> Module ''preact/compat/jsx-runtime'',
      ''react'' \<mapsto> Module ''preact/compat'',
      ''react-dom/test-utils'' \<mapsto> Module ''preact/test-utils'',
      ''react-dom'' \<mapsto> Module ''preact/compat'')"
  by (simp add: object_assign_def preact_aliases_def)

lemma webpack_alias:
  "alias' (resolve (webpack config opts)) =
    (if \<not> dev opts \<and> \<not> isServer opts
     then object_assign (alias' (resolve config)) preact_aliases
     else alias' (resolve config))"
  by (simp add: webpack_def Let_def)


section \<open>Properties of the analyzer toggle\<close>

text \<open>
  C2. The \<open>enabled\<close> option handed to the bundle analyzer is true exactly when the
  environment variable \<open>ANALYZE\<close> is the string \<open>true\<close>. With that value the file
  exports what the analyzer, called with \<open>enabled\<close> true, makes of the configuration
  literal. For any other value, and when the variable is absent, the file exports what
  the analyzer called with \<open>enabled\<close> false makes of the literal, which is what it
  exports when the variable is absent; so for every analyzer that hands a configuration
  back as it is when it is not enabled, the export is the configuration literal itself,
  with the redirects and the hook of this file.
\<close>

theorem analyze_toggle:
  fixes bundle_analyzer' ::
    "analyzer_options \<Rightarrow> ('o, 'm, 'r, 'z) webpack_config_scheme next_config \<Rightarrow> 'e"
  and transparent_analyzer ::
    "analyzer_options \<Rightarrow> ('o, 'm, 'r, 'z) webpack_config_scheme next_config \<Rightarrow>
      ('o, 'm, 'r, 'z) webpack_config_scheme next_config"
  shows
  "(withBundleAnalyzer enabled process_env \<longleftrightarrow> process_env ''ANALYZE'' = Some ''true'') \<and>
   (process_env ''ANALYZE'' = Some ''true'' \<longrightarrow>
      module_exports bundle_analyzer' process_env =
        bundle_analyzer' \<lparr>enabled = True\<rparr>
          \<lparr>reactStrictMode = True,
           pageExtensions = [''js'', ''jsx'', ''md'', ''mdx''],
           eslint = \<lparr>dirs = [''pages'', ''components'', ''lib'', ''layouts'', ''scripts'']\<rparr>,
           redirects_fn = redirects,
           webpack_fn = webpack\<rparr>) \<and>
   (process_env ''ANALYZE'' \<noteq> Some ''true'' \<longrightarrow>
      withBundleAnalyzer bundle_analyzer process_env = bundle_analyzer \<lparr>enabled = False\<rparr> \<and>
      module_exports bundle_analyzer' process_env = module_exports bundle_analyzer' Map.empty \<and>
      module_exports bundle_analyzer' process_env =
        bundle_analyzer' \<lparr>enabled = False\<rparr>
          \<lparr>reactStrictMode = True,
           pageExtensions = [''js'', ''jsx'', ''md'', ''mdx''],
           eslint = \<lparr>dirs = [''pages'', ''components'', ''lib'', ''layouts'', ''scripts'']\<rparr>,
           redirects_fn = redirects,
           webpack_fn = webpack\<rparr>) \<and>
   (process_env ''ANALYZE'' \<noteq> Some ''true'' \<and>
    (\<forall>cfg. transparent_analyzer \<lparr>enabled = False\<rparr> cfg = cfg) \<longrightarrow>
      module_exports transparent_analyzer process_env =
        \<lparr>reactStrictMode = True,
         pageExtensions = [''js'', ''jsx'', ''md'', ''mdx''],
         eslint = \<lparr>dirs = [''pages'', ''components'', ''lib'', ''layouts'', ''scripts'']\<rparr>,
         redirects_fn = redirects,
         webpack_fn = webpack\<rparr>)"
  by (simp add: withBundleAnalyzer_def module_exports_def)

text \<open>
  The example runs an analyzer that returns the configuration with its hook wrapped;
  the wrapper adds a plugin to the bundler's configuration when the analyzer is enabled
  and only then. The plugins are the extension part of the bundler's configuration.
\<close>

theorem analyze_toggle_witness:
  "(let analyzer =
      (\<lambda>(opts :: analyzer_options)
          (cfg :: (unit, unit, unit, string list) webpack_config_scheme next_config).
        cfg\<lparr>webpack_fn := (\<lambda>config options.
          webpack_fn cfg
            (if enabled opts
             then webpack_config.more_update (\<lambda>plugins. plugins @ [''BundleAnalyzerPlugin'']) config
             else config)
            options)\<rparr>);
       config = \<lparr>module = \<lparr>rules = []\<rparr>, resolve = \<lparr>alias' = Map.empty\<rparr>, \<dots> = []\<rparr>;
       options = \<lparr>dev = False, isServer = False\<rparr>
    in [''ANALYZE'' \<mapsto> ''TRUE''] ''ANALYZE'' \<noteq> Some ''true'' \<and>
       (\<forall>cfg. analyzer \<lparr>enabled = False\<rparr> cfg = cfg) \<and>
       \<not> withBundleAnalyzer enabled [''ANALYZE'' \<mapsto> ''TRUE''] \<and>
       \<not> withBundleAnalyzer enabled Map.empty \<and>
       withBundleAnalyzer enabled [''ANALYZE'' \<mapsto> ''true''] \<and>
       module_exports analyzer [''ANALYZE'' \<mapsto> ''TRUE''] =
         \<lparr>reactStrictMode = True,
          pageExtensions = [''js'', ''jsx'', ''md'', ''mdx''],
          eslint = \<lparr>dirs = [''pages'', ''components'', ''lib'', ''layouts'', ''scripts'']\<rparr>,
          redirects_fn = redirects,
          webpack_fn = webpack\<rparr> \<and>
       webpack_config.more
         (webpack_fn (module_exports analyzer [''ANALYZE'' \<mapsto> ''TRUE'']) config options) = [] \<and>
       webpack_config.more
         (webpack_fn (module_exports analyzer [''ANALYZE'' \<mapsto> ''true'']) config options) =
         [''BundleAnalyzerPlugin''])"
proof -
  define analyzer where "analyzer =
      (\<lambda>(opts :: analyzer_options)
          (cfg :: (unit, unit, unit, string list) webpack_config_scheme next_config).
        cfg\<lparr>webpack_fn := (\<lambda>config options.
          webpack_fn cfg
            (if enabled opts
             then webpack_config.more_update (\<lambda>plugins. plugins @ [''BundleAnalyzerPlugin'']) config
             else config)
            options)\<rparr>)"
  have transparent: "\<forall>cfg. analyzer \<lparr>enabled = False\<rparr> cfg = cfg"
    by (simp add: analyzer_def)
  have other: "[''ANALYZE'' \<mapsto> ''TRUE''] ''ANALYZE'' \<noteq> Some ''true''"
    by simp
  note toggle = analyze_toggle [where bundle_analyzer = enabled and
    bundle_analyzer' = analyzer and transparent_analyzer = analyzer]
  from other transparent toggle [of "[''ANALYZE'' \<mapsto> ''TRUE'']"]
  have off: "\<not> withBundleAnalyzer enabled [''ANALYZE'' \<mapsto> ''TRUE'']"
    "module_exports analyzer [''ANALYZE'' \<mapsto> ''TRUE''] =
         \<lparr>reactStrictMode = True,
          pageExtensions = [''js'', ''jsx'', ''md'', ''mdx''],
          eslint = \<lparr>dirs = [''pages'', ''components'', ''lib'', ''layouts'', ''scripts'']\<rparr>,
          redirects_fn = redirects,
          webpack_fn = webpack\<rparr>"
    by blast+
  from toggle [of Map.empty]
  have absent: "\<not> withBundleAnalyzer enabled Map.empty"
    by simp
  from toggle [of "[''ANALYZE'' \<mapsto> ''true'']"]
  have on: "withBundleAnalyzer enabled [''ANALYZE'' \<mapsto> ''true'']"
    "module_exports analyzer [''ANALYZE'' \<mapsto> ''true''] =
      analyzer \<lparr>enabled = True\<rparr>
         \<lparr>reactStrictMode = True,
          pageExtensions = [''js'', ''jsx'', ''md'', ''mdx''],
          eslint = \<lparr>dirs = [''pages'', ''components'', ''lib'', ''layouts'', ''scripts'']\<rparr>,
          redirects_fn = redirects,
          webpack_fn = webpack\<rparr>"
    by simp_all
  have plugin: "webpack_config.more
      (webpack_fn (module_exports analyzer [''ANALYZE'' \<mapsto> ''true''])
        \<lparr>module = \<lparr>rules = []\<rparr>, resolve = \<lparr>alias' = Map.empty\<rparr>, \<dots> = []\<rparr>
        \<lparr>dev = False, isServer = False\<rparr>) = [''BundleAnalyzerPlugin'']"
    unfolding on(2) by (simp add: analyzer_def webpack_def Let_def)
  have none: "webpack_config.more
      (webpack_fn (module_exports analyzer [''ANALYZE'' \<mapsto> ''TRUE''])
        \<lparr>module = \<lparr>rules = []\<rparr>, resolve = \<lparr>alias' = Map.empty\<rparr>, \<dots> = []\<rparr>
        \<lparr>dev = False, isServer = False\<rparr>) = []"
    unfolding off(2) by (simp add: webpack_def Let_def)
  from other transparent off absent on(1) plugin none show ?thesis
    unfolding Let_def analyzer_def by (intro conjI)
qed


section \<open>Properties of the two rules\<close>

text \<open>
  C3. The first rule that the hook adds is the file-loader rule. For a path that ends
  with \<open>.png\<close>, \<open>.jpg\<close>, \<open>.jpeg\<close>, \<open>.gif\<close> or \<open>.mp4\<close>, its test matches, and its use is
  the loader \<open>file-loader\<close> with the public path \<open>/_next\<close> and the name
  \<open>static/media/[name].[hash].[ext]\<close>.
\<close>

theorem asset_rule_matches_media_extensions:
  fixes config :: "('o, 'm, 'r, 'z) webpack_config_scheme"
  assumes "ext \<in> {''.png'', ''.jpg'', ''.jpeg'', ''.gif'', ''.mp4''}"
  shows "rules (module (webpack config opts)) ! length (rules (module config)) = asset_rule \<and>
    rule_applies (asset_rule :: 'o module_rule) (base @ ext) = Some True \<and>
    use (asset_rule :: 'o module_rule) =
      [Loader ''file-loader''
        [(''publicPath'', ''/_next''), (''name'', ''static/media/[name].[hash].[ext]'')]]"
  using assms
  by (simp add: webpack_rules asset_test_lower) (simp add: asset_rule_def asset_test_lower)

theorem asset_rule_matches_media_extensions_witness:
  "''.jpeg'' \<in> {''.png'', ''.jpg'', ''.jpeg'', ''.gif'', ''.mp4''} \<and>
   rule_applies (asset_rule :: unit module_rule) (''/app/public/static/images/avatar'' @ ''.jpeg'') =
     Some True \<and>
   rule_applies
     (rules (module (webpack
        \<lparr>module = \<lparr>rules = [Framework ()]\<rparr>, resolve = \<lparr>alias' = Map.empty\<rparr>\<rparr>
        \<lparr>dev = True, isServer = False\<rparr>)) ! 1)
     ''/app/public/static/images/avatar.jpeg'' = Some True"
proof -
  have ext: "''.jpeg'' \<in> {''.png'', ''.jpg'', ''.jpeg'', ''.gif'', ''.mp4''}"
    by simp
  from asset_rule_matches_media_extensions [OF ext,
    of "\<lparr>module = \<lparr>rules = [Framework ()]\<rparr>, resolve = \<lparr>alias' = Map.empty\<rparr>\<rparr>"
      "\<lparr>dev = True, isServer = False\<rparr>" "''/app/public/static/images/avatar''"]
  show ?thesis
    by simp
qed

text \<open>
  C4. The second rule that the hook adds is the \<open>@svgr/webpack\<close> rule. For a path that
  ends with \<open>.svg\<close>, its test matches, and the test of the file-loader rule does not.
\<close>

theorem svg_rule_matches_svg_only:
  fixes config :: "('o, 'm, 'r, 'z) webpack_config_scheme"
  shows "rules (module (webpack config opts)) ! Suc (length (rules (module config))) = svg_rule \<and>
    rule_applies (svg_rule :: 'o module_rule) (base @ ''.svg'') = Some True \<and>
    use (svg_rule :: 'o module_rule) = [LoaderName ''@svgr/webpack''] \<and>
    \<not> regexp_test (test (asset_rule :: 'o module_rule)) (base @ ''.svg'') \<and>
    rule_applies (asset_rule :: 'o module_rule) (base @ ''.svg'') = Some False"
  by (simp add: webpack_rules nth_append)
    (simp add: svg_rule_def asset_rule_def svg_test_svg asset_test_not_svg)

text \<open>
  C9. The test of the file-loader rule ignores case and the test of the svg rule does
  not. A path that ends with \<open>.PNG\<close> or \<open>.JPG\<close>, or with any other spelling of one of
  the five extensions in upper and lower case, matches the file-loader rule. A path that
  ends with \<open>.SVG\<close> matches neither rule, so none of the rules that the hook adds
  applies to it.
\<close>

theorem upper_case_extensions:
  fixes config :: "('o, 'm, 'r, 'z) webpack_config_scheme"
  shows "ignoreCase (test (asset_rule :: 'o module_rule)) \<and>
    \<not> ignoreCase (test (svg_rule :: 'o module_rule)) \<and>
    rule_applies (asset_rule :: 'o module_rule) (base @ ''.PNG'') = Some True \<and>
    rule_applies (asset_rule :: 'o module_rule) (base @ ''.JPG'') = Some True \<and>
    (map canonicalize ext \<in> {''.PNG'', ''.JPG'', ''.JPEG'', ''.GIF'', ''.MP4''} \<longrightarrow>
      rule_applies (asset_rule :: 'o module_rule) (base @ ext) = Some True) \<and>
    rule_applies (svg_rule :: 'o module_rule) (base @ ''.SVG'') = Some False \<and>
    rule_applies (asset_rule :: 'o module_rule) (base @ ''.SVG'') = Some False \<and>
    map (\<lambda>r. rule_applies r (base @ ''.SVG''))
      (drop (length (rules (module config))) (rules (module (webpack config opts)))) =
      [Some False, Some False]"
  by (simp add: webpack_rules)
    (simp add: svg_rule_def asset_rule_def asset_test_upper asset_test_not_svg
      svg_test_not_upper asset_test_any_case,
     simp add: asset_test_def svg_test_def)

theorem upper_case_extensions_witness:
  "map canonicalize ''.JpEg'' \<in> {''.PNG'', ''.JPG'', ''.JPEG'', ''.GIF'', ''.MP4''} \<and>
   rule_applies (asset_rule :: unit module_rule) (''/app/public/Photo'' @ ''.JpEg'') = Some True \<and>
   rule_applies (svg_rule :: unit module_rule) (''/app/public/Logo'' @ ''.SVG'') = Some False \<and>
   rule_applies (asset_rule :: unit module_rule) (''/app/public/Logo'' @ ''.SVG'') = Some False"
proof -
  note upper = upper_case_extensions [where
    config = "\<lparr>module = \<lparr>rules = [Framework ()]\<rparr>, resolve = \<lparr>alias' = Map.empty\<rparr>\<rparr>" and
    opts = "\<lparr>dev = True, isServer = False\<rparr>"]
  have spelling: "map canonicalize ''.JpEg'' \<in> {''.PNG'', ''.JPG'', ''.JPEG'', ''.GIF'', ''.MP4''}"
    by code_simp
  from upper [where ext = "''.JpEg''" and base = "''/app/public/Photo''"]
  have "map canonicalize ''.JpEg'' \<in> {''.PNG'', ''.JPG'', ''.JPEG'', ''.GIF'', ''.MP4''} \<longrightarrow>
    rule_applies (asset_rule :: unit module_rule) (''/app/public/Photo'' @ ''.JpEg'') = Some True"
    by (elim conjE)
  with spelling
  have "rule_applies (asset_rule :: unit module_rule) (''/app/public/Photo'' @ ''.JpEg'') = Some True"
    by (rule rev_mp)
  moreover from upper [where base = "''/app/public/Logo''" and ext = "''.SVG''"]
  have "rule_applies (svg_rule :: unit module_rule) (''/app/public/Logo'' @ ''.SVG'') = Some False \<and>
    rule_applies (asset_rule :: unit module_rule) (''/app/public/Logo'' @ ''.SVG'') = Some False"
    by (elim conjE) (rule conjI)
  ultimately show ?thesis
    using spelling by (intro conjI) (erule conjunct1 conjunct2 | assumption)+
qed


section \<open>Properties of the aliases and the frame of the hook\<close>

text \<open>
  C5. When \<open>dev\<close> and \<open>isServer\<close> are both false, the hook maps the four keys
  \<open>react/jsx-runtime.js\<close>, \<open>react\<close>, \<open>react-dom/test-utils\<close> and \<open>react-dom\<close> to
  their preact modules. When one of them is true, in particular in a development build,
  the alias object is left as it was. So, for a configuration that did not alias
  \<open>react\<close> to \<open>preact/compat\<close> before, \<open>react\<close> resolves to it afterwards if and only
  if \<open>dev\<close> and \<open>isServer\<close> are both false.
\<close>

theorem preact_aliases_iff_client_production:
  fixes config :: "('o, 'm, 'r, 'z) webpack_config_scheme"
  shows
  "(\<not> dev opts \<and> \<not> isServer opts \<longrightarrow>
      alias' (resolve (webpack config opts)) ''react/jsx-runtime.js'' =
        Some (Module ''preact/compat/jsx-runtime'') \<and>
      alias' (resolve (webpack config opts)) ''react'' = Some (Module ''preact/compat'') \<and>
      alias' (resolve (webpack config opts)) ''react-dom/test-utils'' =
        Some (Module ''preact/test-utils'') \<and>
      alias' (resolve (webpack config opts)) ''react-dom'' = Some (Module ''preact/compat'')) \<and>
   (dev opts \<or> isServer opts \<longrightarrow>
      alias' (resolve (webpack config opts)) = alias' (resolve config)) \<and>
   (alias' (resolve config) ''react'' \<noteq> Some (Module ''preact/compat'') \<longrightarrow>
      (alias' (resolve (webpack config opts)) ''react'' = Some (Module ''preact/compat'')
        \<longleftrightarrow> \<not> dev opts \<and> \<not> isServer opts))"
  by (auto simp: webpack_alias object_assign_preact_aliases)

theorem preact_aliases_iff_client_production_witness:
  "alias' (resolve (webpack
      \<lparr>module = \<lparr>rules = []\<rparr>, resolve = \<lparr>alias' = [''next'' \<mapsto> FrameworkTarget ()]\<rparr>\<rparr>
      \<lparr>dev = False, isServer = False\<rparr>)) ''react'' = Some (Module ''preact/compat'') \<and>
   alias' (resolve (webpack
      \<lparr>module = \<lparr>rules = []\<rparr>, resolve = \<lparr>alias' = [''next'' \<mapsto> FrameworkTarget ()]\<rparr>\<rparr>
      \<lparr>dev = True, isServer = False\<rparr>)) ''react'' = None \<and>
   alias' (resolve (webpack
      \<lparr>module = \<lparr>rules = []\<rparr>, resolve = \<lparr>alias' = [''next'' \<mapsto> FrameworkTarget ()]\<rparr>\<rparr>
      \<lparr>dev = False, isServer = True\<rparr>)) ''react'' = None"
  using
    preact_aliases_iff_client_production [of "\<lparr>dev = False, isServer = False\<rparr>"
      "\<lparr>module = \<lparr>rules = []\<rparr>, resolve = \<lparr>alias' = [''next'' \<mapsto> FrameworkTarget ()]\<rparr>\<rparr>"]
    preact_aliases_iff_client_production [of "\<lparr>dev = True, isServer = False\<rparr>"
      "\<lparr>module = \<lparr>rules = []\<rparr>, resolve = \<lparr>alias' = [''next'' \<mapsto> FrameworkTarget ()]\<rparr>\<rparr>"]
    preact_aliases_iff_client_production [of "\<lparr>dev = False, isServer = True\<rparr>"
      "\<lparr>module = \<lparr>rules = []\<rparr>, resolve = \<lparr>alias' = [''next'' \<mapsto> FrameworkTarget ()]\<rparr>\<rparr>"]
  by simp

text \<open>
  C10. The hook returns the configuration it was given with these changes only: the
  rules array is the old one followed by the two new rules, so the old rules keep their
  places; when \<open>dev\<close> and \<open>isServer\<close> are both false the alias object has the four keys
  set, and otherwise it is the old one; every other key of the alias object, and every
  other property of \<open>config.module\<close>, of \<open>config.resolve\<close> and of \<open>config\<close>, is as it
  was. (The mutation of the argument is the update of the record; \<open>config\<close>,
  \<open>config.module\<close> and \<open>config.resolve\<close> are taken to be three separate objects.)
\<close>

theorem webpack_frame:
  fixes config :: "('o, 'm, 'r, 'z) webpack_config_scheme"
  shows
  "rules (module (webpack config opts)) = rules (module config) @ [asset_rule, svg_rule] \<and>
   take (length (rules (module config))) (rules (module (webpack config opts))) =
     rules (module config) \<and>
   length (rules (module (webpack config opts))) = length (rules (module config)) + 2 \<and>
   module_obj.more (module (webpack config opts)) = module_obj.more (module config) \<and>
   alias' (resolve (webpack config opts)) =
     (if \<not> dev opts \<and> \<not> isServer opts
      then (alias' (resolve config))
        (''react/jsx-runtime.js'' \<mapsto> Module ''preact/compat/jsx-runtime'',
         ''react'' \<mapsto> Module ''preact/compat'',
         ''react-dom/test-utils'' \<mapsto> Module ''preact/test-utils'',
         ''react-dom'' \<mapsto> Module ''preact/compat'')
      else alias' (resolve config)) \<and>
   (\<forall>k. k \<notin> {''react/jsx-runtime.js'', ''react'', ''react-dom/test-utils'', ''react-dom''} \<longrightarrow>
      alias' (resolve (webpack config opts)) k = alias' (resolve config) k) \<and>
   resolve_obj.more (resolve (webpack config opts)) = resolve_obj.more (resolve config) \<and>
   webpack_config.more (webpack config opts) = webpack_config.more config"
  by (simp add: webpack_rules webpack_alias object_assign_preact_aliases)
    (simp add: webpack_def Let_def)

theorem webpack_frame_witness:
  "''next'' \<notin> {''react/jsx-runtime.js'', ''react'', ''react-dom/test-utils'', ''react-dom''} \<and>
   alias' (resolve (webpack
      \<lparr>module = \<lparr>rules = [Framework (0::nat)]\<rparr>,
        resolve = \<lparr>alias' = [''next'' \<mapsto> FrameworkTarget 1]\<rparr>, \<dots> = ''production''\<rparr>
      \<lparr>dev = False, isServer = False\<rparr>)) ''next'' = Some (FrameworkTarget 1) \<and>
   rules (module (webpack
      \<lparr>module = \<lparr>rules = [Framework (0::nat)]\<rparr>,
        resolve = \<lparr>alias' = [''next'' \<mapsto> FrameworkTarget 1]\<rparr>, \<dots> = ''production''\<rparr>
      \<lparr>dev = False, isServer = False\<rparr>)) = [Framework 0, asset_rule, svg_rule] \<and>
   webpack_config.more (webpack
      \<lparr>module = \<lparr>rules = [Framework (0::nat)]\<rparr>,
        resolve = \<lparr>alias' = [''next'' \<mapsto> FrameworkTarget 1]\<rparr>, \<dots> = ''production''\<rparr>
      \<lparr>dev = False, isServer = False\<rparr>) = ''production''"
  using webpack_frame [of
      "\<lparr>module = \<lparr>rules = [Framework (0::nat)]\<rparr>,
        resolve = \<lparr>alias' = [''next'' \<mapsto> FrameworkTarget 1]\<rparr>, \<dots> = ''production''\<rparr>"
      "\<lparr>dev = False, isServer = False\<rparr>"]
  by simp


section \<open>Properties of the blog posts\<close>

text \<open>
  C7. Each of the five post files starts with a front matter block between two lines
  \<open>---\<close>. The block has exactly five lines, and the names before their first colon
  are \<open>title\<close>, \<open>date\<close>, \<open>tags\<close>, \<open>draft\<close> and \<open>summary\<close>, in this order; the tags
  are a list and the draft flag is \<open>true\<close> or \<open>false\<close>. A body with text follows the
  block.
\<close>

theorem front_matter_fields:
  "length blog_posts = 5 \<and>
   (\<forall>post \<in> set blog_posts.
      hd post = ''---'' \<and> post ! 6 = ''---'' \<and> ''---'' \<notin> set (take 5 (tl post)) \<and>
      map (takeWhile (\<lambda>c. c \<noteq> CHR '':'')) (take 5 (tl post)) =
        [''title'', ''date'', ''tags'', ''draft'', ''summary''] \<and>
      prefix ''tags: ['' (post ! 3) \<and> last (post ! 3) = CHR '']'' \<and>
      post ! 4 \<in> {''draft: true'', ''draft: false''} \<and>
      filter (\<lambda>l. l \<noteq> []) (drop 7 post) \<noteq> [])"
  by (simp add: blog_posts_def swagger_api_versioning_dotnet_core_def
      linq_extensions_pagination_order_by_property_name_def
      entity_framework_query_filters_per_request_configuration_def
      set_up_automapper_dotnet_core_def part_000_def)

theorem front_matter_fields_witness:
  "part_000 \<in> set blog_posts \<and>
   map (takeWhile (\<lambda>c. c \<noteq> CHR '':'')) (take 5 (tl part_000)) =
     [''title'', ''date'', ''tags'', ''draft'', ''summary''] \<and>
   part_000 ! 4 = ''draft: false'' \<and>
   drop 7 part_000 = ['''', ''## What is OpenIddict?'']"
proof -
  have mem: "part_000 \<in> set blog_posts"
    by (simp add: blog_posts_def)
  with front_matter_fields
  have "map (takeWhile (\<lambda>c. c \<noteq> CHR '':'')) (take 5 (tl part_000)) =
     [''title'', ''date'', ''tags'', ''draft'', ''summary'']"
    by blast
  moreover have "part_000 ! 4 = ''draft: false''" "drop 7 part_000 = ['''', ''## What is OpenIddict?'']"
    by (simp_all add: part_000_def)
  ultimately show ?thesis
    using mem by simp
qed

end
